theory Spec2Isabelle
  imports Complex_Main "HOL-Library.AList" "HOL-Library.Multiset"
begin

section \<open>Data model (quiz\_app/models.py)\<close>

text \<open>
  Primary keys are the positive integers the database hands out, modelled as
  \<^typ>\<open>nat\<close>. Timestamps are microseconds since the epoch and durations are
  microseconds, both \<^typ>\<open>int\<close>. The \<open>FloatField\<close> percentage is idealised as a
  \<^typ>\<open>real\<close>: rounding error of the binary floating point representation is not
  modelled.
\<close>

record quiz_question =
  question_id :: nat
  question_text :: string
  choice_a :: string
  choice_b :: string
  choice_c :: string
  choice_d :: string
  correct_answer :: string
  difficulty_level :: string
  created_at :: int
  is_active :: bool

text \<open>\<open>QuizQuestion.get_choices\<close>: the four tagged choices, in order.\<close>

definition get_choices :: "quiz_question \<Rightarrow> (string \<times> string) list" where
  "get_choices q =
     [(''A'', choice_a q), (''B'', choice_b q), (''C'', choice_c q), (''D'', choice_d q)]"

text \<open>
  One entry of \<open>UserScore.quiz_questions\<close>: the dictionary
  \<open>{'id', 'question', 'choices', 'correct_answer'}\<close> that \<open>quiz_view\<close> builds.
\<close>

record question_snapshot =
  snap_id :: nat
  snap_question :: string
  snap_choices :: "(string \<times> string) list"
  snap_correct_answer :: string

text \<open>
  A row of \<open>UserScore\<close>. \<open>user_answers\<close> is a JSON object, so its keys are the
  decimal strings of the question ids.
\<close>

record user_score =
  score_id :: nat
  user :: nat
  score :: int
  total_questions :: int
  percentage :: real
  time_taken :: "int option"
  completed_at :: int
  user_answers :: "(string \<times> string) list"
  quiz_questions :: "question_snapshot list"

text \<open>
  \<open>UserScore.save\<close>: the percentage is computed from \<open>score\<close> and
  \<open>total_questions\<close>, then \<open>super().save()\<close> inserts the row. The insert gives the
  row the next primary key and stamps \<open>completed_at\<close> (\<open>auto_now_add\<close>) with the
  clock reading \<open>now\<close>. The result is the saved instance and the new table.
\<close>

definition next_pk :: "user_score list \<Rightarrow> nat" where
  "next_pk rows = Suc (fold max (map score_id rows) 0)"

definition super_save :: "int \<Rightarrow> user_score \<Rightarrow> user_score list \<Rightarrow> user_score \<times> user_score list" where
  "super_save now r rows =
     (let r' = r\<lparr>score_id := next_pk rows, completed_at := now\<rparr> in (r', rows @ [r']))"

definition save :: "int \<Rightarrow> user_score \<Rightarrow> user_score list \<Rightarrow> user_score \<times> user_score list" where
  "save now r rows =
     (let r1 = (if total_questions r > 0
                then r\<lparr>percentage := (real_of_int (score r) / real_of_int (total_questions r)) * 100\<rparr>
                else r\<lparr>percentage := 0\<rparr>)
      in super_save now r1 rows)"

definition get_grade :: "user_score \<Rightarrow> string" where
  "get_grade r =
     (if percentage r \<ge> 90 then ''A''
      else if percentage r \<ge> 80 then ''B''
      else if percentage r \<ge> 70 then ''C''
      else if percentage r \<ge> 60 then ''D''
      else ''F'')"

definition is_passed :: "user_score \<Rightarrow> bool" where
  "is_passed r = (percentage r \<ge> 60)"

text \<open>The order of the letter grades, worst first, used to state monotonicity.\<close>

definition grade_rank :: "string \<Rightarrow> nat" where
  "grade_rank g =
     (if g = ''A'' then 4 else if g = ''B'' then 3 else if g = ''C'' then 2
      else if g = ''D'' then 1 else 0)"

section \<open>Python helpers\<close>

text \<open>
  \<open>str(n)\<close> for a non-negative integer: its decimal digits, most significant first.
\<close>

definition digit_char :: "nat \<Rightarrow> char" where
  "digit_char d = char_of (48 + d)"

function str_nat :: "nat \<Rightarrow> string" where
  "str_nat n = (if n < 10 then [digit_char n] else str_nat (n div 10) @ [digit_char (n mod 10)])"
  by pat_completeness auto
termination
  by (relation "measure (\<lambda>n. n)") auto

declare str_nat.simps [simp del]

text \<open>
  \<open>int(s)\<close> on a string of decimal digits; \<open>None\<close> stands for the \<open>ValueError\<close>
  raised on the empty string and on any other character. (Python also accepts a sign,
  surrounding blanks and underscores; the form never produces such field names.)
\<close>

definition digit_val :: "char \<Rightarrow> nat option" where
  "digit_val c =
     (let k = (of_char c :: nat) in if 48 \<le> k \<and> k \<le> 57 then Some (k - 48) else None)"

fun int_of_digits :: "nat \<Rightarrow> string \<Rightarrow> nat option" where
  "int_of_digits acc [] = Some acc"
| "int_of_digits acc (c # cs) =
     (case digit_val c of None \<Rightarrow> None | Some d \<Rightarrow> int_of_digits (10 * acc + d) cs)"

definition py_int :: "string \<Rightarrow> nat option" where
  "py_int s = (if s = [] then None else int_of_digits 0 s)"

definition startswith :: "string \<Rightarrow> string \<Rightarrow> bool" where
  "startswith s p = (take (length p) s = p)"

text \<open>
  \<open>s.replace(old, new)\<close>: every non-overlapping occurrence of \<open>old\<close>, left to
  right. With an empty \<open>old\<close> Python puts \<open>new\<close> before every character and at the end.
\<close>

function py_replace :: "string \<Rightarrow> string \<Rightarrow> string \<Rightarrow> string" where
  "py_replace old new s =
     (if old = [] then new @ concat (map (\<lambda>c. c # new) s)
      else if s = [] then []
      else if take (length old) s = old then new @ py_replace old new (drop (length old) s)
      else hd s # py_replace old new (tl s))"
  by pat_completeness auto
termination
  by (relation "measure (\<lambda>(old, new, s). length s)") auto

declare py_replace.simps [simp del]

text \<open>
  \<open>round(x, 1)\<close>: the nearest multiple of one tenth, a tie going to the even one.
\<close>

definition round1 :: "real \<Rightarrow> real" where
  "round1 x =
     (let y = x * 10; f = \<lfloor>y\<rfloor>; d = y - of_int f
      in (if d < 1 / 2 then of_int f
          else if d > 1 / 2 then of_int (f + 1)
          else if even f then of_int f else of_int (f + 1)) / 10)"

section \<open>Forms (quiz\_app/forms.py)\<close>

text \<open>
  \<open>request.POST\<close>: the submitted value of each field name, if any.
\<close>

type_synonym post_data = "string \<Rightarrow> string option"

text \<open>
  A \<open>forms.ChoiceField(required=True)\<close> and its \<open>clean\<close>: a missing or empty value is
  the \<open>required\<close> error, a value that is not the tag of a choice is the
  \<open>invalid_choice\<close> error, anything else is the cleaned value.
\<close>

record choice_field =
  label :: string
  choices :: "(string \<times> string) list"
  required_message :: string

definition ChoiceField_clean :: "choice_field \<Rightarrow> string option \<Rightarrow> string + string" where
  "ChoiceField_clean f raw =
     (let v = (case raw of None \<Rightarrow> [] | Some x \<Rightarrow> x)
      in if v = [] then Inl (required_message f)
         else if v \<in> set (map fst (choices f)) then Inr v
         else Inl (''Select a valid choice. '' @ v @ '' is not one of the available choices.''))"

text \<open>
  \<open>QuizForm.__init__\<close>: one required radio field per question, named
  \<open>question_<id>\<close>, stored in the form's ordered \<open>fields\<close> dictionary.
\<close>

definition field_name_of :: "nat \<Rightarrow> string" where
  "field_name_of qid = ''question_'' @ str_nat qid"

definition question_field :: "quiz_question \<Rightarrow> choice_field" where
  "question_field question =
     \<lparr>label = question_text question,
      choices = [(''A'', choice_a question), (''B'', choice_b question),
                 (''C'', choice_c question), (''D'', choice_d question)],
      required_message = ''Please select an answer for this question.''\<rparr>"

definition QuizForm_init :: "quiz_question list \<Rightarrow> (string \<times> choice_field) list" where
  "QuizForm_init questions =
     fold (\<lambda>question fs.
             AList.update (field_name_of (question_id question)) (question_field question) fs)
          questions []"

text \<open>
  Cleaning a bound form: every field is cleaned in order; a field ends either in
  \<open>cleaned_data\<close> or in \<open>errors\<close>. The form is valid when there is no error.
\<close>

definition cleaned_data :: "(string \<times> choice_field) list \<Rightarrow> post_data \<Rightarrow> (string \<times> string) list" where
  "cleaned_data fs data =
     concat (map (\<lambda>(name, f). case ChoiceField_clean f (data name) of
                                  Inr v \<Rightarrow> [(name, v)] | Inl e \<Rightarrow> []) fs)"

definition form_errors :: "(string \<times> choice_field) list \<Rightarrow> post_data \<Rightarrow> (string \<times> string list) list" where
  "form_errors fs data =
     concat (map (\<lambda>(name, f). case ChoiceField_clean f (data name) of
                                  Inr v \<Rightarrow> [] | Inl e \<Rightarrow> [(name, [e])]) fs)"

definition is_valid :: "(string \<times> choice_field) list \<Rightarrow> post_data \<Rightarrow> bool" where
  "is_valid fs data = (form_errors fs data = [])"

text \<open>
  \<open>QuizForm.get_user_answers\<close>: the cleaned value of every \<open>question_\<close> field under
  the integer after the prefix. \<open>None\<close> is the \<open>ValueError\<close> of \<open>int\<close>.
\<close>

fun get_user_answers_loop ::
  "(string \<times> string) list \<Rightarrow> (nat \<times> string) list \<Rightarrow> (nat \<times> string) list option" where
  "get_user_answers_loop [] answers = Some answers"
| "get_user_answers_loop ((field_name, v) # items) answers =
     (if startswith field_name ''question_'' then
        (case py_int (py_replace ''question_'' [] field_name) of
           None \<Rightarrow> None
         | Some qid \<Rightarrow> get_user_answers_loop items (AList.update qid v answers))
      else get_user_answers_loop items answers)"

definition get_user_answers :: "(string \<times> string) list \<Rightarrow> (nat \<times> string) list option" where
  "get_user_answers cleaned = get_user_answers_loop cleaned []"

text \<open>
  \<open>QuizSettingsForm\<close>. The text of the \<open>num_questions\<close> field is taken after
  \<open>IntegerField.to_python\<close>: missing, not a whole number, or an integer. The checkbox
  \<open>random_order\<close> is taken as the boolean it cleans to.
\<close>

datatype int_input = Missing | Not_a_number | Number int

record settings_post =
  num_questions_input :: int_input
  difficulty_input :: "string option"
  random_order_input :: bool

record settings =
  num_questions :: int
  difficulty :: string
  random_order :: bool

definition DIFFICULTY_CHOICES :: "(string \<times> string) list" where
  "DIFFICULTY_CHOICES =
     [(''ALL'', ''All Difficulties''), (''EASY'', ''Easy''),
      (''MEDIUM'', ''Medium''), (''HARD'', ''Hard'')]"

text \<open>\<open>forms.IntegerField(min_value=1, max_value=50).clean\<close>.\<close>

definition num_questions_field_clean :: "int_input \<Rightarrow> string + int" where
  "num_questions_field_clean raw =
     (case raw of
        Missing \<Rightarrow> Inl ''This field is required.''
      | Not_a_number \<Rightarrow> Inl ''Enter a whole number.''
      | Number n \<Rightarrow>
          if n > 50 then Inl ''Ensure this value is less than or equal to 50.''
          else if n < 1 then Inl ''Ensure this value is greater than or equal to 1.''
          else Inr n)"

text \<open>
  \<open>QuizSettingsForm.clean_num_questions\<close>, over the question table: it runs only on a
  value the field itself has accepted.
\<close>

definition clean_num_questions :: "quiz_question list \<Rightarrow> int \<Rightarrow> string + int" where
  "clean_num_questions table n =
     (let total_available = length (filter is_active table)
      in if n > int total_available
         then Inl (''Only '' @ str_nat total_available @ '' questions are available. ''
                   @ ''Please choose a smaller number.'')
         else Inr n)"

definition settings_form_errors :: "quiz_question list \<Rightarrow> settings_post \<Rightarrow> (string \<times> string list) list" where
  "settings_form_errors table post =
     (case num_questions_field_clean (num_questions_input post) of
        Inl e \<Rightarrow> [(''num_questions'', [e])]
      | Inr n \<Rightarrow> (case clean_num_questions table n of
                    Inl e \<Rightarrow> [(''num_questions'', [e])] | Inr n' \<Rightarrow> []))
     @ (case ChoiceField_clean
               \<lparr>label = ''Difficulty Level'', choices = DIFFICULTY_CHOICES,
                required_message = ''This field is required.''\<rparr> (difficulty_input post) of
          Inl e \<Rightarrow> [(''difficulty'', [e])] | Inr d \<Rightarrow> [])"

definition settings_cleaned_data :: "settings_post \<Rightarrow> settings" where
  "settings_cleaned_data post =
     \<lparr>num_questions = (case num_questions_input post of Number n \<Rightarrow> n | _ \<Rightarrow> 0),
      difficulty = (case difficulty_input post of Some d \<Rightarrow> d | None \<Rightarrow> []),
      random_order = random_order_input post\<rparr>"

section \<open>Views (quiz\_app/views.py)\<close>

text \<open>
  The state a request works on: the two tables and the user's session. The three
  session keys are optional entries.
\<close>

record session =
  quiz_settings :: "settings option"
  quiz_start_time :: "int option"
  quiz_result_id :: "nat option"

record world =
  QuizQuestion_objects :: "quiz_question list"
  UserScore_objects :: "user_score list"
  request_session :: session

datatype http_method = GET | POST | HEAD

record 'p request =
  request_method :: http_method
  POST_data :: 'p
  request_user :: "nat option"

record quiz_context =
  ctx_form_fields :: "(string \<times> choice_field) list"
  ctx_form_errors :: "(string \<times> string list) list"
  ctx_questions :: "quiz_question list"
  ctx_question_count :: nat
  ctx_quiz_settings :: settings

record result_detail =
  rd_question :: string
  rd_choices :: "(string \<times> string) list"
  rd_user_answer :: string
  rd_correct_answer :: string
  rd_is_correct :: bool
  rd_correct_text :: string
  rd_user_text :: string

record results_context =
  ctx_user_score :: user_score
  ctx_detailed_results :: "result_detail list"
  ctx_percentage :: real
  ctx_grade :: string
  ctx_passed :: bool

text \<open>
  What a view answers: a rendered page with its context, a redirect to a named route
  with the messages queued for it, the redirect of \<open>login_required\<close>, a 404, or the 500
  of an uncaught exception (which leaves the state as it was).
\<close>

datatype response =
    Render_quiz quiz_context
  | Render_results results_context
  | Render_setup "(string \<times> string list) list" nat
  | Redirect string "string list"
  | Redirect_login
  | Http404
  | Server_error

text \<open>
  The default ordering of \<open>QuizQuestion\<close> is \<open>-created_at\<close>: newest first (rows with
  equal timestamps keep their table order here; SQL leaves their order open).
\<close>

definition default_ordering :: "quiz_question list \<Rightarrow> quiz_question list" where
  "default_ordering table = sort_key (\<lambda>q. - created_at q) table"

text \<open>
  \<open>order_by('?')\<close>: a random permutation. The random source is a list of numbers; each
  picks the next row among those left.
\<close>

function order_by_random :: "nat list \<Rightarrow> 'a list \<Rightarrow> 'a list" where
  "order_by_random rnd xs =
     (if xs = [] then []
      else let i = (case rnd of [] \<Rightarrow> 0 | r # _ \<Rightarrow> r mod length xs)
           in xs ! i # order_by_random (tl rnd) (take i xs @ drop (Suc i) xs))"
  by pat_completeness auto
termination
proof (relation "measure (\<lambda>(rnd, xs). length xs)")
  show "wf (measure (\<lambda>(rnd :: nat list, xs :: 'a list). length xs))"
    by simp
next
  fix rnd :: "nat list" and xs :: "'a list" and i :: nat
  assume "xs \<noteq> []" and i: "i = (case rnd of [] \<Rightarrow> 0 | r # _ \<Rightarrow> r mod length xs)"
  then have "i < length xs"
    by (cases rnd) auto
  then show "((tl rnd, take i xs @ drop (Suc i) xs), (rnd, xs))
               \<in> measure (\<lambda>(rnd, xs). length xs)"
    by simp
qed

declare order_by_random.simps [simp del]

definition default_settings :: settings where
  "default_settings = \<lparr>num_questions = 10, difficulty = ''ALL'', random_order = True\<rparr>"

text \<open>
  \<open>request.session.get('quiz_settings', {...})\<close>: the stored settings, or the
  defaults when the key is absent.
\<close>

definition current_settings :: "session \<Rightarrow> settings" where
  "current_settings s =
     (case quiz_settings s of None \<Rightarrow> default_settings | Some st \<Rightarrow> st)"

text \<open>
  The question selection of \<open>quiz_view\<close>: active questions, filtered by difficulty unless
  it is \<open>ALL\<close>, then the first \<open>num_questions\<close> of a random order or of the default
  order.
\<close>

definition select_questions :: "nat list \<Rightarrow> settings \<Rightarrow> quiz_question list \<Rightarrow> quiz_question list" where
  "select_questions rnd qs table =
     (let questions_query = filter is_active (default_ordering table);
          questions_query =
            (if difficulty qs \<noteq> ''ALL''
             then filter (\<lambda>q. difficulty_level q = difficulty qs) questions_query
             else questions_query)
      in if random_order qs
         then take (nat (num_questions qs)) (order_by_random rnd questions_query)
         else take (nat (num_questions qs)) questions_query)"

definition snapshot :: "quiz_question \<Rightarrow> question_snapshot" where
  "snapshot q =
     \<lparr>snap_id = question_id q, snap_question = question_text q,
      snap_choices = get_choices q, snap_correct_answer = correct_answer q\<rparr>"

text \<open>The scoring loop of \<open>quiz_view\<close>.\<close>

definition count_score :: "quiz_question list \<Rightarrow> (nat \<times> string) list \<Rightarrow> int" where
  "count_score questions answers =
     fold (\<lambda>question sc.
             if map_of answers (question_id question) = Some (correct_answer question)
             then sc + 1 else sc)
          questions 0"

text \<open>Storing a dictionary in a \<open>JSONField\<close> turns its integer keys into strings.\<close>

definition json_object :: "(nat \<times> string) list \<Rightarrow> (string \<times> string) list" where
  "json_object d = map (\<lambda>(k, v). (str_nat k, v)) d"

text \<open>\<open>quiz_setup_view\<close>: a valid settings form is stored in the session.\<close>

definition quiz_setup_view :: "settings_post request \<Rightarrow> world \<Rightarrow> response \<times> world" where
  "quiz_setup_view request w =
     (case request_user request of
        None \<Rightarrow> (Redirect_login, w)
      | Some u \<Rightarrow>
          (let total_questions = length (filter is_active (QuizQuestion_objects w))
           in if request_method request = POST then
                (let errors = settings_form_errors (QuizQuestion_objects w) (POST_data request)
                 in if errors = [] then
                      (Redirect ''quiz'' [],
                       w\<lparr>request_session := (request_session w)
                            \<lparr>quiz_settings := Some (settings_cleaned_data (POST_data request))\<rparr>\<rparr>)
                    else (Render_setup errors total_questions, w))
              else (Render_setup [] total_questions, w)))"

text \<open>
  \<open>quiz_view\<close>. \<open>clock k\<close> is what the \<open>k\<close>-th call of \<open>timezone.now()\<close> in this
  request returns, \<open>rnd\<close> is the random source of \<open>order_by('?')\<close>. The start time is
  kept in the session as an ISO string and parsed back (with \<open>timezone.utc\<close> as UTC
  and time-zone-aware clock readings); the model keeps the timestamp itself. A negative
  slice bound is an exception of the query set. The dictionary \<open>correct_answers\<close> that
  the scoring loop fills is never read and is left out.
\<close>

definition quiz_view ::
  "(nat \<Rightarrow> int) \<Rightarrow> nat list \<Rightarrow> post_data request \<Rightarrow> world \<Rightarrow> response \<times> world" where
  "quiz_view clock rnd request w =
     (case request_user request of
        None \<Rightarrow> (Redirect_login, w)
      | Some u \<Rightarrow>
          (let qs = current_settings (request_session w)
           in if num_questions qs < 0 then (Server_error, w)
              else
                (let questions = select_questions rnd qs (QuizQuestion_objects w)
                 in if questions = [] then
                      (Redirect ''quiz_setup''
                         [''No questions available for the selected criteria.''], w)
                    else if request_method request = POST then
                      (let form = QuizForm_init questions
                       in if is_valid form (POST_data request) then
                            (let (k, sess1) =
                                   (if quiz_start_time (request_session w) = None
                                    then (Suc 0, (request_session w)\<lparr>quiz_start_time := Some (clock 0)\<rparr>)
                                    else (0, request_session w))
                             in case get_user_answers (cleaned_data form (POST_data request)) of
                                  None \<Rightarrow> (Server_error, w)
                                | Some answers \<Rightarrow>
                                    (let sc = count_score questions answers;
                                         elapsed =
                                           (case quiz_start_time sess1 of
                                              Some start_time \<Rightarrow> Some (clock k - start_time)
                                            | None \<Rightarrow> None);
                                         (saved, rows) =
                                           save (clock (Suc k))
                                             \<lparr>score_id = 0, user = u, score = sc,
                                              total_questions = int (length questions),
                                              percentage = 0, time_taken = elapsed,
                                              completed_at = 0,
                                              user_answers = json_object answers,
                                              quiz_questions = map snapshot questions\<rparr>
                                             (UserScore_objects w)
                                     in (Redirect ''quiz_results'' [],
                                         w\<lparr>UserScore_objects := rows,
                                           request_session :=
                                             sess1\<lparr>quiz_result_id := Some (score_id saved),
                                                   quiz_start_time := None,
                                                   quiz_settings := None\<rparr>\<rparr>)))
                          else
                            (Render_quiz
                               \<lparr>ctx_form_fields = form,
                                ctx_form_errors = form_errors form (POST_data request),
                                ctx_questions = questions,
                                ctx_question_count = length questions,
                                ctx_quiz_settings = qs\<rparr>, w))
                    else
                      (Render_quiz
                         \<lparr>ctx_form_fields = QuizForm_init questions,
                          ctx_form_errors = [],
                          ctx_questions = questions,
                          ctx_question_count = length questions,
                          ctx_quiz_settings = qs\<rparr>,
                       w\<lparr>request_session :=
                           (request_session w)\<lparr>quiz_start_time := Some (clock 0)\<rparr>\<rparr>))))"

text \<open>
  \<open>quiz_results_view\<close>: the breakdown of the record whose id the session holds, built
  from the record's own \<open>quiz_questions\<close> and \<open>user_answers\<close>.
\<close>

definition dict_get :: "(string \<times> string) list \<Rightarrow> string \<Rightarrow> string \<Rightarrow> string" where
  "dict_get d k dflt = (case map_of d k of None \<Rightarrow> dflt | Some v \<Rightarrow> v)"

definition detailed_result :: "user_score \<Rightarrow> question_snapshot \<Rightarrow> result_detail" where
  "detailed_result us question_data =
     (let qid = snap_id question_data;
          user_answer = dict_get (user_answers us) (str_nat qid) ''Not answered'';
          correct = snap_correct_answer question_data
      in \<lparr>rd_question = snap_question question_data,
          rd_choices = snap_choices question_data,
          rd_user_answer = user_answer,
          rd_correct_answer = correct,
          rd_is_correct = (user_answer = correct),
          rd_correct_text = dict_get (snap_choices question_data) correct ''Unknown'',
          rd_user_text = dict_get (snap_choices question_data) user_answer ''Not answered''\<rparr>)"

definition quiz_results_view :: "'p request \<Rightarrow> world \<Rightarrow> response \<times> world" where
  "quiz_results_view request w =
     (case request_user request of
        None \<Rightarrow> (Redirect_login, w)
      | Some u \<Rightarrow>
          (case quiz_result_id (request_session w) of
             None \<Rightarrow> (Redirect ''home'' [''No quiz results found. Please take a quiz first.''], w)
           | Some result_id \<Rightarrow>
               if result_id = 0 then
                 (Redirect ''home'' [''No quiz results found. Please take a quiz first.''], w)
               else
                 (case find (\<lambda>r. score_id r = result_id \<and> user r = u) (UserScore_objects w) of
                    None \<Rightarrow> (Http404, w)
                  | Some us \<Rightarrow>
                      (Render_results
                         \<lparr>ctx_user_score = us,
                          ctx_detailed_results = map (detailed_result us) (quiz_questions us),
                          ctx_percentage = round1 (percentage us),
                          ctx_grade = get_grade us,
                          ctx_passed = is_passed us\<rparr>,
                       w\<lparr>request_session := (request_session w)\<lparr>quiz_result_id := None\<rparr>\<rparr>))))"

text \<open>
  A question is answered in the submitted data when its field holds one of the four
  choice tags.
\<close>

definition answered :: "post_data \<Rightarrow> quiz_question \<Rightarrow> bool" where
  "answered data q =
     (case data (field_name_of (question_id q)) of
        None \<Rightarrow> False | Some v \<Rightarrow> v \<in> {''A'', ''B'', ''C'', ''D''})"

section \<open>Example data\<close>

text \<open>
  Three active questions, created at different times, held in a table whose row order
  is not the default ordering; a session that asks for three questions of any difficulty
  in stored order; and the requests of one user.
\<close>

definition ex_q1 :: quiz_question where
  "ex_q1 = \<lparr>question_id = 1, question_text = ''What is two plus two?'',
            choice_a = ''3'', choice_b = ''4'', choice_c = ''5'', choice_d = ''6'',
            correct_answer = ''B'', difficulty_level = ''EASY'',
            created_at = 300, is_active = True\<rparr>"

definition ex_q2 :: quiz_question where
  "ex_q2 = \<lparr>question_id = 2, question_text = ''What is the capital of France?'',
            choice_a = ''Paris'', choice_b = ''Rome'', choice_c = ''Bern'', choice_d = ''Oslo'',
            correct_answer = ''A'', difficulty_level = ''MEDIUM'',
            created_at = 200, is_active = True\<rparr>"

definition ex_q3 :: quiz_question where
  "ex_q3 = \<lparr>question_id = 3, question_text = ''Which planet is the red one?'',
            choice_a = ''Venus'', choice_b = ''Pluto'', choice_c = ''Mars'', choice_d = ''Earth'',
            correct_answer = ''C'', difficulty_level = ''HARD'',
            created_at = 100, is_active = True\<rparr>"

definition ex_settings :: settings where
  "ex_settings = \<lparr>num_questions = 3, difficulty = ''ALL'', random_order = False\<rparr>"

definition ex_world :: world where
  "ex_world =
     \<lparr>QuizQuestion_objects = [ex_q3, ex_q1, ex_q2], UserScore_objects = [],
      request_session = \<lparr>quiz_settings = Some ex_settings, quiz_start_time = None,
                         quiz_result_id = None\<rparr>\<rparr>"

definition ex_clock :: "nat \<Rightarrow> int" where
  "ex_clock k = 1000 + int k"

definition ex_clock_later :: "nat \<Rightarrow> int" where
  "ex_clock_later k = 5000 + int k"

definition ex_get :: "post_data request" where
  "ex_get = \<lparr>request_method = GET, POST_data = Map.empty, request_user = Some 7\<rparr>"

text \<open>Two right answers and a wrong one; and the same without the third answer.\<close>

definition ex_answers :: post_data where
  "ex_answers = [''question_1'' \<mapsto> ''B'', ''question_2'' \<mapsto> ''A'', ''question_3'' \<mapsto> ''D'']"

definition ex_submit :: "post_data request" where
  "ex_submit = \<lparr>request_method = POST, POST_data = ex_answers, request_user = Some 7\<rparr>"

definition ex_submit_partial :: "post_data request" where
  "ex_submit_partial =
     \<lparr>request_method = POST, POST_data = [''question_1'' \<mapsto> ''B'', ''question_2'' \<mapsto> ''A''],
      request_user = Some 7\<rparr>"

text \<open>The questions a response shows, if it is the quiz page.\<close>

definition presented :: "response \<Rightarrow> quiz_question list" where
  "presented resp = (case resp of Render_quiz ctx \<Rightarrow> ctx_questions ctx | _ \<Rightarrow> [])"

text \<open>
  The first question after an administrator has edited its text and correct answer, and
  the state in which the quiz has been presented and the question edited afterwards.
\<close>

definition ex_q1_edited :: quiz_question where
  "ex_q1_edited = ex_q1\<lparr>question_text := ''What is three plus three?'', correct_answer := ''D''\<rparr>"

definition ex_world_edited :: world where
  "ex_world_edited =
     (snd (quiz_view ex_clock [] ex_get ex_world))
       \<lparr>QuizQuestion_objects := [ex_q3, ex_q1_edited, ex_q2]\<rparr>"

text \<open>
  For a submission: how many of the questions have their correct tag submitted, and the
  answer dictionary that \<open>get_user_answers\<close> returns when every question is answered.
\<close>

definition correct_count :: "post_data \<Rightarrow> quiz_question list \<Rightarrow> nat" where
  "correct_count data qs =
     length (filter (\<lambda>q. data (field_name_of (question_id q)) = Some (correct_answer q)) qs)"

definition submitted_answers :: "post_data \<Rightarrow> quiz_question list \<Rightarrow> (nat \<times> string) list" where
  "submitted_answers data qs =
     map (\<lambda>q. (question_id q, the (data (field_name_of (question_id q))))) qs"

text \<open>The context of a response, if it is the results page.\<close>

definition shown_results :: "response \<Rightarrow> results_context option" where
  "shown_results resp = (case resp of Render_results ctx \<Rightarrow> Some ctx | _ \<Rightarrow> None)"

text \<open>The example state after the quiz has been presented, and after it has been scored.\<close>

definition ex_world_presented :: world where
  "ex_world_presented = snd (quiz_view ex_clock [] ex_get ex_world)"

definition ex_world_scored :: world where
  "ex_world_scored = snd (quiz_view ex_clock_later [] ex_submit ex_world_presented)"

text \<open>
  A store with five active questions, and settings submissions that ask for ten and for
  fifty-one questions.
\<close>

definition ex_world_five :: world where
  "ex_world_five =
     ex_world\<lparr>QuizQuestion_objects :=
       [ex_q1, ex_q2, ex_q3,
        ex_q1\<lparr>question_id := 4, created_at := 50\<rparr>,
        ex_q2\<lparr>question_id := 5, created_at := 40\<rparr>]\<rparr>"

definition ex_setup_ten :: "settings_post request" where
  "ex_setup_ten =
     \<lparr>request_method = POST,
      POST_data = \<lparr>num_questions_input = Number 10, difficulty_input = Some ''ALL'',
                   random_order_input = True\<rparr>,
      request_user = Some 7\<rparr>"

definition ex_setup_fifty_one :: "settings_post request" where
  "ex_setup_fifty_one =
     \<lparr>request_method = POST,
      POST_data = \<lparr>num_questions_input = Number 51, difficulty_input = Some ''ALL'',
                   random_order_input = True\<rparr>,
      request_user = Some 7\<rparr>"

text \<open>The example store with a session that holds no settings, and an empty store.\<close>

definition ex_world_no_settings :: world where
  "ex_world_no_settings =
     ex_world\<lparr>request_session :=
       \<lparr>quiz_settings = None, quiz_start_time = None, quiz_result_id = None\<rparr>\<rparr>"

definition ex_world_empty :: world where
  "ex_world_empty = ex_world_no_settings\<lparr>QuizQuestion_objects := []\<rparr>"

text \<open>
  What the results page shows of each question: its text, the submitted tag, the correct
  tag and the judgment.
\<close>

definition shown_breakdown :: "response \<Rightarrow> (string \<times> string \<times> string \<times> bool) list" where
  "shown_breakdown resp =
     (case resp of
        Render_results ctx \<Rightarrow>
          map (\<lambda>d. (rd_question d, rd_user_answer d, rd_correct_answer d, rd_is_correct d))
              (ctx_detailed_results ctx)
      | _ \<Rightarrow> [])"

text \<open>
  The example state after the quiz has been presented and the third question has then
  been deactivated.
\<close>

definition ex_world_deactivated :: world where
  "ex_world_deactivated =
     ex_world_presented\<lparr>QuizQuestion_objects := [ex_q3\<lparr>is_active := False\<rparr>, ex_q1, ex_q2]\<rparr>"

section \<open>Field names and question ids\<close>

text \<open>
  The name of a question field determines the question id: \<open>int\<close> reads back what
  \<open>str\<close> wrote, and the digits never contain the prefix that \<open>replace\<close> removes.
\<close>

lemma digit_val_digit_char: "d < 10 \<Longrightarrow> digit_val (digit_char d) = Some d"
  by (simp add: digit_val_def digit_char_def Let_def)

lemma int_of_digits_snoc:
  "int_of_digits acc (cs @ [c]) =
     (case int_of_digits acc cs of None \<Rightarrow> None
      | Some a \<Rightarrow> (case digit_val c of None \<Rightarrow> None | Some d \<Rightarrow> Some (10 * a + d)))"
  by (induction cs arbitrary: acc) (auto split: option.splits)

lemma str_nat_not_Nil: "str_nat n \<noteq> []"
  by (subst str_nat.simps) simp

lemma int_of_digits_str_nat: "int_of_digits 0 (str_nat n) = Some n"
proof (induction n rule: str_nat.induct)
  case (1 n)
  show ?case
  proof (cases "n < 10")
    case True
    then show ?thesis
      by (subst str_nat.simps) (simp add: digit_val_digit_char)
  next
    case False
    with 1 have "int_of_digits 0 (str_nat (n div 10)) = Some (n div 10)"
      by simp
    with False show ?thesis
      by (subst str_nat.simps) (simp add: int_of_digits_snoc digit_val_digit_char)
  qed
qed

lemma py_int_str_nat: "py_int (str_nat n) = Some n"
  by (simp add: py_int_def str_nat_not_Nil int_of_digits_str_nat)

lemma str_nat_inj: "str_nat a = str_nat b \<longleftrightarrow> a = b"
  by (metis py_int_str_nat option.inject)

lemma digit_char_not_q: "d < 10 \<Longrightarrow> digit_char d \<noteq> CHR ''q''"
proof
  assume "d < 10" and "digit_char d = CHR ''q''"
  then have "digit_val (CHR ''q'') = Some d"
    using digit_val_digit_char by metis
  then show False
    by (simp add: digit_val_def)
qed

lemma q_notin_str_nat: "CHR ''q'' \<notin> set (str_nat n)"
proof (induction n rule: str_nat.induct)
  case (1 n)
  show ?case
  proof (cases "n < 10")
    case True
    then show ?thesis
      by (subst str_nat.simps) (simp add: digit_char_not_q [symmetric] digit_char_not_q)
  next
    case False
    with 1 have "CHR ''q'' \<notin> set (str_nat (n div 10))"
      by simp
    moreover have "digit_char (n mod 10) \<noteq> CHR ''q''"
      by (rule digit_char_not_q) simp
    ultimately show ?thesis using False
      by (subst str_nat.simps) auto
  qed
qed

lemma py_replace_absent:
  "old \<noteq> [] \<Longrightarrow> hd old \<notin> set s \<Longrightarrow> py_replace old new s = s"
proof (induction s)
  case Nil
  then show ?case by (subst py_replace.simps) simp
next
  case (Cons c s)
  from Cons.prems have "take (length old) (c # s) \<noteq> old"
    by (cases old) auto
  with Cons show ?case
    by (subst py_replace.simps) simp
qed

lemma py_replace_prefix:
  "old \<noteq> [] \<Longrightarrow> py_replace old new (old @ s) = new @ py_replace old new s"
  by (subst py_replace.simps) simp

lemma field_name_roundtrip:
  "py_int (py_replace ''question_'' [] (field_name_of n)) = Some n"
proof -
  have "py_replace ''question_'' [] (''question_'' @ str_nat n) = py_replace ''question_'' [] (str_nat n)"
    using py_replace_prefix [of "''question_''" "[]" "str_nat n"] by simp
  also have "\<dots> = str_nat n"
    by (rule py_replace_absent) (simp_all add: q_notin_str_nat)
  finally have "py_replace ''question_'' [] (field_name_of n) = str_nat n"
    unfolding field_name_of_def .
  then show ?thesis
    by (simp add: py_int_str_nat)
qed

lemma startswith_field_name: "startswith (field_name_of n) ''question_''"
  by (simp add: startswith_def field_name_of_def)

lemma field_name_inj: "field_name_of a = field_name_of b \<longleftrightarrow> a = b"
  by (simp add: field_name_of_def str_nat_inj)

section \<open>The quiz form\<close>

text \<open>
  Which fields the form has, what an empty field cleans to, and what a form over
  questions with distinct ids cleans to when every question is answered.
\<close>

lemma set_update_cases:
  "(k, v) \<in> set (AList.update k' v' al) \<Longrightarrow> (k, v) = (k', v') \<or> (k, v) \<in> set al"
  by (induction al) (auto split: if_splits)

lemma update_has_key: "(k, v) \<in> set (AList.update k v al)"
  by (induction al) auto

lemma update_keeps_other:
  "k \<noteq> k' \<Longrightarrow> (k, v) \<in> set al \<Longrightarrow> (k, v) \<in> set (AList.update k' v' al)"
  by (induction al) auto

lemma update_keeps_key:
  "k \<in> fst ` set al \<Longrightarrow> k \<in> fst ` set (AList.update k' v' al)"
  by (simp add: dom_update)

lemma fold_form_fields:
  "(name, f) \<in> set (fold (\<lambda>q. AList.update (field_name_of (question_id q)) (question_field q)) qs acc)
   \<Longrightarrow> (name, f) \<in> set acc \<or> (\<exists>q \<in> set qs. name = field_name_of (question_id q) \<and> f = question_field q)"
proof (induction qs arbitrary: acc)
  case Nil
  then show ?case by simp
next
  case (Cons q qs)
  from Cons.prems Cons.IH [of "AList.update (field_name_of (question_id q)) (question_field q) acc"]
  show ?case
    by (auto dest: set_update_cases)
qed

lemma fold_form_keys:
  "fst ` set (fold (\<lambda>q. AList.update (field_name_of (question_id q)) (question_field q)) qs acc)
   = fst ` set acc \<union> (\<lambda>q. field_name_of (question_id q)) ` set qs"
  by (induction qs arbitrary: acc) (auto simp: dom_update)

lemma QuizForm_init_fold:
  "QuizForm_init qs = fold (\<lambda>q. AList.update (field_name_of (question_id q)) (question_field q)) qs []"
  by (simp add: QuizForm_init_def)

lemma QuizForm_init_field:
  assumes "(name, f) \<in> set (QuizForm_init qs)"
  shows "\<exists>q \<in> set qs. name = field_name_of (question_id q) \<and> f = question_field q"
  using fold_form_fields [of name f qs "[]"] assms by (simp add: QuizForm_init_fold)

lemma QuizForm_init_has_field:
  assumes "q \<in> set qs"
  shows "\<exists>f. (field_name_of (question_id q), f) \<in> set (QuizForm_init qs)"
proof -
  have "field_name_of (question_id q) \<in> fst ` set (QuizForm_init qs)"
    using assms by (simp add: QuizForm_init_fold fold_form_keys)
  then show ?thesis by force
qed

lemma form_errors_member:
  assumes "(name, f) \<in> set fs" and "ChoiceField_clean f (data name) = Inl e"
  shows "(name, [e]) \<in> set (form_errors fs data)"
  using assms by (force simp: form_errors_def)

lemma ChoiceField_clean_empty:
  "raw = None \<or> raw = Some [] \<Longrightarrow> ChoiceField_clean f raw = Inl (required_message f)"
  by (auto simp: ChoiceField_clean_def)

lemma missing_answer_error:
  assumes "q \<in> set qs"
    and "data (field_name_of (question_id q)) = None
         \<or> data (field_name_of (question_id q)) = Some []"
  shows "(field_name_of (question_id q), [''Please select an answer for this question.''])
           \<in> set (form_errors (QuizForm_init qs) data)"
proof -
  from assms(1) obtain f where f: "(field_name_of (question_id q), f) \<in> set (QuizForm_init qs)"
    using QuizForm_init_has_field by blast
  then have "required_message f = ''Please select an answer for this question.''"
    using QuizForm_init_field [OF f] by (auto simp: question_field_def)
  with assms(2) have "ChoiceField_clean f (data (field_name_of (question_id q)))
      = Inl ''Please select an answer for this question.''"
    using ChoiceField_clean_empty [of "data (field_name_of (question_id q))" f] by simp
  with f show ?thesis
    by (rule form_errors_member)
qed

lemma update_fresh: "k \<notin> fst ` set al \<Longrightarrow> AList.update k v al = al @ [(k, v)]"
  by (induction al) auto

lemma fold_update_distinct:
  assumes "distinct (map kf qs)" and "kf ` set qs \<inter> fst ` set acc = {}"
  shows "fold (\<lambda>q. AList.update (kf q) (vf q)) qs acc = acc @ map (\<lambda>q. (kf q, vf q)) qs"
  using assms
proof (induction qs arbitrary: acc)
  case Nil
  then show ?case by simp
next
  case (Cons q qs)
  from Cons.prems have fresh: "kf q \<notin> fst ` set acc"
    by auto
  then have step: "AList.update (kf q) (vf q) acc = acc @ [(kf q, vf q)]"
    by (rule update_fresh)
  have "kf ` set qs \<inter> fst ` set (acc @ [(kf q, vf q)]) = {}"
    using Cons.prems by auto
  with Cons.prems Cons.IH [of "acc @ [(kf q, vf q)]"] step show ?case
    by simp
qed

lemma distinct_field_names:
  "distinct (map question_id qs) \<Longrightarrow> distinct (map (\<lambda>q. field_name_of (question_id q)) qs)"
  by (induction qs) (auto simp: field_name_inj)

lemma QuizForm_init_distinct:
  assumes "distinct (map question_id qs)"
  shows "QuizForm_init qs = map (\<lambda>q. (field_name_of (question_id q), question_field q)) qs"
  using fold_update_distinct [of "\<lambda>q. field_name_of (question_id q)" qs "[]" question_field]
    distinct_field_names [OF assms]
  by (simp add: QuizForm_init_def)

lemma clean_answered:
  "answered data q \<Longrightarrow>
   ChoiceField_clean (question_field q) (data (field_name_of (question_id q)))
     = Inr (the (data (field_name_of (question_id q))))"
  by (auto simp: answered_def ChoiceField_clean_def question_field_def split: option.splits)

lemma form_errors_answered:
  "\<forall>q \<in> set qs. answered data q \<Longrightarrow>
   form_errors (map (\<lambda>q. (field_name_of (question_id q), question_field q)) qs) data = []"
  by (induction qs) (simp_all add: form_errors_def clean_answered)

lemma cleaned_data_answered:
  "\<forall>q \<in> set qs. answered data q \<Longrightarrow>
   cleaned_data (map (\<lambda>q. (field_name_of (question_id q), question_field q)) qs) data
     = map (\<lambda>q. (field_name_of (question_id q), the (data (field_name_of (question_id q))))) qs"
  by (induction qs) (simp_all add: cleaned_data_def clean_answered)

lemma get_user_answers_loop_distinct:
  assumes "distinct (map question_id qs)" and "question_id ` set qs \<inter> fst ` set acc = {}"
  shows "get_user_answers_loop (map (\<lambda>q. (field_name_of (question_id q), af q)) qs) acc
           = Some (acc @ map (\<lambda>q. (question_id q, af q)) qs)"
  using assms
proof (induction qs arbitrary: acc)
  case Nil
  then show ?case by simp
next
  case (Cons q qs)
  from Cons.prems have "question_id q \<notin> fst ` set acc"
    by auto
  then have step: "AList.update (question_id q) (af q) acc = acc @ [(question_id q, af q)]"
    by (rule update_fresh)
  have "question_id ` set qs \<inter> fst ` set (acc @ [(question_id q, af q)]) = {}"
    using Cons.prems by auto
  with Cons.prems Cons.IH [of "acc @ [(question_id q, af q)]"] step show ?case
    by (simp add: startswith_field_name field_name_roundtrip)
qed

lemma map_of_answers:
  assumes "distinct (map question_id qs)" and "q \<in> set qs"
  shows "map_of (map (\<lambda>q. (question_id q, af q)) qs) (question_id q) = Some (af q)"
  using assms by (induction qs) (auto simp: image_iff)

lemma fold_count:
  assumes "\<forall>q \<in> set qs. (map_of answers (question_id q) = Some (correct_answer q)) = P q"
  shows "fold (\<lambda>question sc.
             if map_of answers (question_id question) = Some (correct_answer question)
             then sc + 1 else sc) qs (n :: int) = n + int (length (filter P qs))"
  using assms by (induction qs arbitrary: n) auto

lemma count_score_distinct:
  assumes "distinct (map question_id qs)"
  shows "count_score qs (map (\<lambda>q. (question_id q, af q)) qs)
           = int (length (filter (\<lambda>q. af q = correct_answer q) qs))"
proof -
  have "\<forall>q \<in> set qs. (map_of (map (\<lambda>q. (question_id q, af q)) qs) (question_id q) = Some (correct_answer q))
          = (af q = correct_answer q)"
    by (simp add: map_of_answers [OF assms])
  from fold_count [OF this, of 0] show ?thesis
    by (simp add: count_score_def)
qed

lemma select_questions_negative:
  "num_questions st < 0 \<Longrightarrow> select_questions rnd st table = []"
  by (simp add: select_questions_def Let_def)

section \<open>The example data, evaluated\<close>

lemma ex_selection:
  "select_questions rnd (current_settings (request_session ex_world)) (QuizQuestion_objects ex_world)
     = [ex_q1, ex_q2, ex_q3]"
  by (simp add: select_questions_def current_settings_def ex_world_def ex_settings_def
      default_ordering_def ex_q1_def ex_q2_def ex_q3_def)

lemma ex_field_names:
  "field_name_of 1 = ''question_1''" "field_name_of 2 = ''question_2''"
  "field_name_of 3 = ''question_3''"
  by code_simp+

section \<open>A scored submission\<close>

text \<open>
  The only answer of \<open>quiz_view\<close> that redirects to the results is the valid
  submission; this is the record it adds and the session it leaves.
\<close>

lemma quiz_view_scored:
  assumes "quiz_view clock rnd request w = (Redirect ''quiz_results'' msgs, w')"
  shows "\<exists>u answers.
           request_user request = Some u \<and> request_method request = POST
           \<and> get_user_answers
                (cleaned_data
                   (QuizForm_init (select_questions rnd (current_settings (request_session w))
                                     (QuizQuestion_objects w)))
                   (POST_data request)) = Some answers
           \<and> UserScore_objects w'
               = UserScore_objects w @
                 [\<lparr>score_id = next_pk (UserScore_objects w), user = u,
                   score = count_score (select_questions rnd (current_settings (request_session w))
                                         (QuizQuestion_objects w)) answers,
                   total_questions = int (length (select_questions rnd
                                         (current_settings (request_session w))
                                         (QuizQuestion_objects w))),
                   percentage = real_of_int (count_score (select_questions rnd (current_settings (request_session w))
                                         (QuizQuestion_objects w)) answers)
                                / real (length (select_questions rnd
                                         (current_settings (request_session w))
                                         (QuizQuestion_objects w))) * 100,
                   time_taken = (case quiz_start_time (request_session w) of
                                   Some st \<Rightarrow> Some (clock 0 - st)
                                 | None \<Rightarrow> Some (clock 1 - clock 0)),
                   completed_at = (case quiz_start_time (request_session w) of
                                   Some st \<Rightarrow> clock 1 | None \<Rightarrow> clock 2),
                   user_answers = json_object answers,
                   quiz_questions = map snapshot (select_questions rnd
                                         (current_settings (request_session w))
                                         (QuizQuestion_objects w))\<rparr>]
           \<and> QuizQuestion_objects w' = QuizQuestion_objects w
           \<and> request_session w'
               = \<lparr>quiz_settings = None, quiz_start_time = None,
                  quiz_result_id = Some (next_pk (UserScore_objects w))\<rparr>"
  using assms
  by (auto simp: quiz_view_def Let_def save_def super_save_def numeral_2_eq_2
           split: option.splits if_splits prod.splits)

section \<open>Valid submissions and the saved row\<close>

lemma answered_tag:
  "answered data q \<Longrightarrow>
   (the (data (field_name_of (question_id q))) = c) = (data (field_name_of (question_id q)) = Some c)"
  by (auto simp: answered_def split: option.splits)

lemma filter_answered_cong:
  "\<forall>q \<in> set qs. answered data q \<Longrightarrow>
   filter (\<lambda>q. the (data (field_name_of (question_id q))) = correct_answer q) qs
   = filter (\<lambda>q. data (field_name_of (question_id q)) = Some (correct_answer q)) qs"
  by (rule filter_cong) (simp_all add: answered_tag)

lemma valid_form:
  assumes "distinct (map question_id qs)" and "\<forall>q \<in> set qs. answered data q"
  shows "is_valid (QuizForm_init qs) data"
    and "get_user_answers (cleaned_data (QuizForm_init qs) data) = Some (submitted_answers data qs)"
    and "count_score qs (submitted_answers data qs) = int (correct_count data qs)"
proof -
  show "is_valid (QuizForm_init qs) data"
    using assms by (simp add: is_valid_def QuizForm_init_distinct form_errors_answered)
  have "get_user_answers_loop
          (map (\<lambda>q. (field_name_of (question_id q), the (data (field_name_of (question_id q))))) qs) []
        = Some ([] @ submitted_answers data qs)"
    unfolding submitted_answers_def
    by (rule get_user_answers_loop_distinct) (simp_all add: assms)
  then show "get_user_answers (cleaned_data (QuizForm_init qs) data) = Some (submitted_answers data qs)"
    using assms by (simp add: get_user_answers_def QuizForm_init_distinct cleaned_data_answered)
  show "count_score qs (submitted_answers data qs) = int (correct_count data qs)"
    unfolding submitted_answers_def correct_count_def
    using count_score_distinct [OF assms(1), of "\<lambda>q. the (data (field_name_of (question_id q)))"]
      filter_answered_cong [OF assms(2)]
    by simp
qed

lemma valid_submission:
  assumes "request_user request = Some u" and "request_method request = POST"
    and "select_questions rnd (current_settings (request_session w)) (QuizQuestion_objects w) = qs"
    and "qs \<noteq> []"
    and "distinct (map question_id qs)"
    and "\<forall>q \<in> set qs. answered (POST_data request) q"
  shows "fst (quiz_view clock rnd request w) = Redirect ''quiz_results'' []"
    and "\<exists>r. UserScore_objects (snd (quiz_view clock rnd request w)) = UserScore_objects w @ [r]
           \<and> score_id r = next_pk (UserScore_objects w) \<and> user r = u
           \<and> score r = int (correct_count (POST_data request) qs)
           \<and> total_questions r = int (length qs)
           \<and> percentage r = real (correct_count (POST_data request) qs) / real (length qs) * 100
           \<and> quiz_questions r = map snapshot qs
           \<and> user_answers r = json_object (submitted_answers (POST_data request) qs)"
    and "quiz_result_id (request_session (snd (quiz_view clock rnd request w)))
           = Some (next_pk (UserScore_objects w))"
proof -
  have neg: "\<not> num_questions (current_settings (request_session w)) < 0"
    using assms(3,4) select_questions_negative by blast
  note vf = valid_form [OF assms(5,6)]
  show "fst (quiz_view clock rnd request w) = Redirect ''quiz_results'' []"
    using assms(1-4) neg vf
    by (simp add: quiz_view_def Let_def split: prod.splits)
  show "\<exists>r. UserScore_objects (snd (quiz_view clock rnd request w)) = UserScore_objects w @ [r]
           \<and> score_id r = next_pk (UserScore_objects w) \<and> user r = u
           \<and> score r = int (correct_count (POST_data request) qs)
           \<and> total_questions r = int (length qs)
           \<and> percentage r = real (correct_count (POST_data request) qs) / real (length qs) * 100
           \<and> quiz_questions r = map snapshot qs
           \<and> user_answers r = json_object (submitted_answers (POST_data request) qs)"
    using assms(1-4) neg vf
    by (simp add: quiz_view_def Let_def save_def super_save_def split: prod.splits)
  show "quiz_result_id (request_session (snd (quiz_view clock rnd request w)))
           = Some (next_pk (UserScore_objects w))"
    using assms(1-4) neg vf
    by (simp add: quiz_view_def Let_def save_def super_save_def split: prod.splits)
qed

lemma fold_max_ge: "(a :: nat) \<le> fold max xs a \<and> (\<forall>x \<in> set xs. x \<le> fold max xs a)"
proof (induction xs arbitrary: a)
  case Nil
  show ?case by simp
next
  case (Cons y ys)
  from Cons [of "max y a"] show ?case
    by auto
qed

lemma next_pk_fresh: "x \<in> set rows \<Longrightarrow> score_id x < next_pk rows"
  using fold_max_ge [of 0 "map score_id rows"] by (auto simp: next_pk_def less_Suc_eq_le)

lemma find_new_row:
  assumes "\<forall>x \<in> set rows. \<not> P x" and "P r"
  shows "find P (rows @ [r]) = Some r"
  using assms by (induction rows) auto

lemma find_saved_row:
  assumes "score_id r = next_pk rows" and "user r = u"
  shows "find (\<lambda>x. score_id x = next_pk rows \<and> user x = u) (rows @ [r]) = Some r"
proof (rule find_new_row)
  show "\<forall>x \<in> set rows. \<not> (score_id x = next_pk rows \<and> user x = u)"
    using next_pk_fresh by fastforce
  show "score_id r = next_pk rows \<and> user r = u"
    using assms by simp
qed

lemma round1_two_thirds: "round1 (200 / 3) = 66.7"
  by (simp add: round1_def Let_def)

section \<open>Presenting the quiz and showing the results\<close>

lemma quiz_view_get:
  assumes "request_user request = Some u" and "request_method request \<noteq> POST"
    and "select_questions rnd (current_settings (request_session w)) (QuizQuestion_objects w) = qs"
    and "qs \<noteq> []"
  shows "quiz_view clock rnd request w
           = (Render_quiz \<lparr>ctx_form_fields = QuizForm_init qs, ctx_form_errors = [],
                           ctx_questions = qs, ctx_question_count = length qs,
                           ctx_quiz_settings = current_settings (request_session w)\<rparr>,
              w\<lparr>request_session := (request_session w)\<lparr>quiz_start_time := Some (clock 0)\<rparr>\<rparr>)"
proof -
  have "\<not> num_questions (current_settings (request_session w)) < 0"
    using assms(3,4) select_questions_negative by blast
  then show ?thesis
    using assms by (simp add: quiz_view_def Let_def)
qed

lemma results_of_saved_row:
  assumes "request_user request = Some u"
    and "quiz_result_id (request_session w) = Some (next_pk rows)"
    and "UserScore_objects w = rows @ [r]"
    and "score_id r = next_pk rows" and "user r = u"
  shows "fst (quiz_results_view request w)
           = Render_results
               \<lparr>ctx_user_score = r,
                ctx_detailed_results = map (detailed_result r) (quiz_questions r),
                ctx_percentage = round1 (percentage r),
                ctx_grade = get_grade r, ctx_passed = is_passed r\<rparr>"
  using assms find_saved_row [OF assms(4,5)]
  by (simp add: quiz_results_view_def next_pk_def)

section \<open>Random order and the default selection\<close>

text \<open>
  A random order is a permutation; the default selection takes at most ten active
  questions; and the field names of the form always parse, so a submission never ends in
  the exception of \<open>int\<close>.
\<close>

lemma mset_order_by_random: "mset (order_by_random rnd xs) = mset xs"
proof (induction rnd xs rule: order_by_random.induct)
  case (1 rnd xs)
  show ?case
  proof (cases "xs = []")
    case True
    then show ?thesis
      by (subst order_by_random.simps) simp
  next
    case False
    define i where "i = (case rnd of [] \<Rightarrow> 0 | r # _ \<Rightarrow> r mod length xs)"
    from False have i: "i < length xs"
      by (cases rnd) (auto simp: i_def)
    have "mset (order_by_random (tl rnd) (take i xs @ drop (Suc i) xs))
            = mset (take i xs @ drop (Suc i) xs)"
      using "1.IH" [OF False i_def] .
    moreover have "order_by_random rnd xs
            = xs ! i # order_by_random (tl rnd) (take i xs @ drop (Suc i) xs)"
      using False by (subst order_by_random.simps) (simp add: i_def Let_def)
    moreover have "mset xs = mset (take i xs @ xs ! i # drop (Suc i) xs)"
      using id_take_nth_drop [OF i] by simp
    ultimately show ?thesis
      by simp
  qed
qed

lemma length_order_by_random: "length (order_by_random rnd xs) = length xs"
  using mset_order_by_random [of rnd xs] by (metis size_mset)

lemma mset_take_subset: "mset (take n xs) \<subseteq># mset xs"
proof -
  have "mset xs = mset (take n xs) + mset (drop n xs)"
    by (metis append_take_drop_id mset_append)
  then show ?thesis
    by simp
qed

lemma select_default:
  "length (select_questions rnd default_settings table) = min 10 (length (filter is_active table))"
  "mset (select_questions rnd default_settings table) \<subseteq># mset (filter is_active table)"
proof -
  have m: "mset (filter is_active (default_ordering table)) = mset (filter is_active table)"
    by (simp add: default_ordering_def)
  then have l: "length (filter is_active (default_ordering table)) = length (filter is_active table)"
    by (metis size_mset)
  show "length (select_questions rnd default_settings table) = min 10 (length (filter is_active table))"
    using l by (simp add: select_questions_def default_settings_def length_order_by_random min.commute)
  have "mset (take 10 (order_by_random rnd (filter is_active (default_ordering table))))
          \<subseteq># mset (order_by_random rnd (filter is_active (default_ordering table)))"
    by (rule mset_take_subset)
  then show "mset (select_questions rnd default_settings table) \<subseteq># mset (filter is_active table)"
    using m by (simp add: select_questions_def default_settings_def mset_order_by_random)
qed

lemma get_user_answers_loop_total:
  assumes "\<forall>name \<in> fst ` set items. \<exists>n. name = field_name_of n"
  shows "get_user_answers_loop items acc \<noteq> None"
  using assms
proof (induction items arbitrary: acc)
  case Nil
  show ?case by simp
next
  case (Cons item items)
  obtain name v where item: "item = (name, v)"
    by (cases item)
  with Cons.prems obtain n where n: "name = field_name_of n"
    by auto
  have "\<forall>name \<in> fst ` set items. \<exists>n. name = field_name_of n"
    using Cons.prems by simp
  from Cons.IH [OF this] show ?case
    by (simp add: item n startswith_field_name field_name_roundtrip)
qed

lemma cleaned_data_names: "fst ` set (cleaned_data fs data) \<subseteq> fst ` set fs"
proof
  fix name
  assume "name \<in> fst ` set (cleaned_data fs data)"
  then obtain v where "(name, v) \<in> set (cleaned_data fs data)"
    by auto
  then obtain f where "(name, f) \<in> set fs"
    by (auto simp: cleaned_data_def split: sum.splits)
  then show "name \<in> fst ` set fs"
    by force
qed

lemma get_user_answers_total:
  "get_user_answers (cleaned_data (QuizForm_init qs) data) \<noteq> None"
  unfolding get_user_answers_def
proof (rule get_user_answers_loop_total, rule ballI)
  fix name
  assume "name \<in> fst ` set (cleaned_data (QuizForm_init qs) data)"
  then have "name \<in> fst ` set (QuizForm_init qs)"
    using cleaned_data_names by blast
  then show "\<exists>n. name = field_name_of n"
    by (auto simp: QuizForm_init_fold fold_form_keys)
qed

lemma quiz_view_no_exception:
  assumes "0 \<le> num_questions (current_settings (request_session w))"
  shows "fst (quiz_view clock rnd request w) \<noteq> Server_error"
proof -
  have "get_user_answers
          (cleaned_data
             (QuizForm_init (select_questions rnd (current_settings (request_session w))
                               (QuizQuestion_objects w)))
             (POST_data request)) \<noteq> None"
    by (rule get_user_answers_total)
  with assms show ?thesis
    by (auto simp: quiz_view_def Let_def split: option.splits prod.splits)
qed

text \<open>
  Rendering the quiz page leaves the tables and the settings as they are, so a later
  request selects from the same store with the same settings.
\<close>

lemma quiz_page_selection:
  assumes "quiz_view clock rnd request w = (Render_quiz ctx, w')"
  shows "ctx_questions ctx
           = select_questions rnd (current_settings (request_session w)) (QuizQuestion_objects w)"
    and "QuizQuestion_objects w' = QuizQuestion_objects w"
    and "UserScore_objects w' = UserScore_objects w"
    and "current_settings (request_session w') = current_settings (request_session w)"
  using assms
  by (auto simp: quiz_view_def Let_def current_settings_def
           split: option.splits if_splits prod.splits)

text \<open>
  With random order off the selection does not depend on the random source, so the state
  that a presentation leaves selects the presented questions again.
\<close>

lemma select_questions_in_order:
  "\<not> random_order st \<Longrightarrow> select_questions rnd st table = select_questions rnd' st table"
  by (simp add: select_questions_def Let_def)

lemma presented_selected_again:
  assumes "quiz_view clock0 rnd0 page_request w0 = (Render_quiz page, w)"
    and "\<not> random_order (current_settings (request_session w0))"
  shows "select_questions rnd (current_settings (request_session w)) (QuizQuestion_objects w)
           = ctx_questions page"
  using quiz_page_selection [OF assms(1)] select_questions_in_order [OF assms(2), of rnd]
  by simp

section \<open>Score records: percentage and grade\<close>

text \<open>
  C1. Every Score Record written by \<open>save\<close> is appended to the table with its
  percentage recomputed from its score and total-questions fields: score / total * 100
  when the total is positive and 0 when the total is 0, whatever percentage the caller
  had put into the instance.
\<close>

theorem save_recomputes_percentage:
  "save now (r\<lparr>percentage := p\<rparr>) rows = save now r rows
   \<and> snd (save now r rows) = rows @ [fst (save now r rows)]
   \<and> score (fst (save now r rows)) = score r
   \<and> total_questions (fst (save now r rows)) = total_questions r
   \<and> (total_questions r > 0 \<longrightarrow>
        percentage (fst (save now r rows))
          = real_of_int (score r) / real_of_int (total_questions r) * 100)
   \<and> (total_questions r = 0 \<longrightarrow> percentage (fst (save now r rows)) = 0)"
  by (simp add: save_def super_save_def Let_def)

theorem save_recomputes_percentage_witness:
  "(let r = \<lparr>score_id = 0, user = 1, score = 2, total_questions = 3, percentage = 100,
             time_taken = None, completed_at = 0, user_answers = [], quiz_questions = []\<rparr>
    in (0::int) < total_questions r
       \<and> percentage (fst (save 7 r [])) = 200 / 3
       \<and> save 7 (r\<lparr>percentage := 0\<rparr>) [] = save 7 r [])"
  using save_recomputes_percentage
    [where now = 7 and p = 0 and rows = "[]" and
       r = "\<lparr>score_id = 0, user = 1, score = 2, total_questions = 3, percentage = 100,
             time_taken = None, completed_at = 0, user_answers = [], quiz_questions = []\<rparr>"]
  by (simp add: Let_def)

text \<open>
  C4. The grade is a function of the percentage alone, with the fixed thresholds
  (at least 90 gives A, at least 80 gives B, at least 70 gives C, at least 60 gives D,
  anything else F); it is monotonic in the percentage; the boundary values 90, 80, 70, 60
  and 59.999 map to A, B, C, D and F; and a record counts as passed exactly when its
  percentage is at least 60.
\<close>

theorem get_grade_thresholds:
  "(percentage r = percentage r' \<longrightarrow> get_grade r = get_grade r')
   \<and> (percentage r \<ge> 90 \<longrightarrow> get_grade r = ''A'')
   \<and> (80 \<le> percentage r \<and> percentage r < 90 \<longrightarrow> get_grade r = ''B'')
   \<and> (70 \<le> percentage r \<and> percentage r < 80 \<longrightarrow> get_grade r = ''C'')
   \<and> (60 \<le> percentage r \<and> percentage r < 70 \<longrightarrow> get_grade r = ''D'')
   \<and> (percentage r < 60 \<longrightarrow> get_grade r = ''F'')
   \<and> (percentage r \<le> percentage r' \<longrightarrow> grade_rank (get_grade r) \<le> grade_rank (get_grade r'))
   \<and> get_grade (r\<lparr>percentage := 90\<rparr>) = ''A''
   \<and> get_grade (r\<lparr>percentage := 80\<rparr>) = ''B''
   \<and> get_grade (r\<lparr>percentage := 70\<rparr>) = ''C''
   \<and> get_grade (r\<lparr>percentage := 60\<rparr>) = ''D''
   \<and> get_grade (r\<lparr>percentage := 59.999\<rparr>) = ''F''
   \<and> (is_passed r \<longleftrightarrow> percentage r \<ge> 60)"
  by (simp add: get_grade_def is_passed_def grade_rank_def)

theorem get_grade_thresholds_witness:
  "(let r = \<lparr>score_id = 1, user = 1, score = 17, total_questions = 20, percentage = 85,
             time_taken = None, completed_at = 0, user_answers = [], quiz_questions = []\<rparr>;
        r' = r\<lparr>score := 19, percentage := 95\<rparr>
    in percentage r \<le> percentage r'
       \<and> get_grade r = ''B'' \<and> get_grade r' = ''A''
       \<and> grade_rank (get_grade r) \<le> grade_rank (get_grade r')
       \<and> is_passed r)"
  using get_grade_thresholds
    [of "\<lparr>score_id = 1, user = 1, score = 17, total_questions = 20, percentage = 85,
             time_taken = None, completed_at = 0, user_answers = [], quiz_questions = []\<rparr>"
        "\<lparr>score_id = 1, user = 1, score = 19, total_questions = 20, percentage = 95,
             time_taken = None, completed_at = 0, user_answers = [], quiz_questions = []\<rparr>"]
  by (simp add: Let_def get_grade_def grade_rank_def)

section \<open>Submitting answers\<close>

text \<open>
  C6, as amended. A submission is validated against the questions that the view selects
  from the store when it handles the submission. If one of these questions has no
  selected choice tag, its field missing or empty, the submission is rejected: the quiz
  page is rendered again with the error ``Please select an answer for this question.'' on
  that question's field, and the state is exactly what it was, so the settings and start
  time of the session stay and no Score Record is added. When the submission is handled
  in the state that a presentation with random order off has left, these questions are
  the presented ones, so the same holds for every presented question left unanswered.
\<close>

theorem unanswered_submission_rejected:
  assumes "request_user request = Some u" and "request_method request = POST"
    and "POST_data request (field_name_of (question_id q)) = None
         \<or> POST_data request (field_name_of (question_id q)) = Some []"
  shows "(q \<in> set (select_questions rnd (current_settings (request_session w)) (QuizQuestion_objects w))
          \<longrightarrow> (\<exists>ctx. quiz_view clock rnd request w = (Render_quiz ctx, w)
                 \<and> (field_name_of (question_id q), [''Please select an answer for this question.''])
                     \<in> set (ctx_form_errors ctx)
                 \<and> ctx_questions ctx
                     = select_questions rnd (current_settings (request_session w))
                         (QuizQuestion_objects w)))
         \<and> (\<forall>clock0 rnd0 page_request w0 page.
               quiz_view clock0 rnd0 page_request w0 = (Render_quiz page, w)
               \<and> \<not> random_order (current_settings (request_session w0))
               \<and> q \<in> set (ctx_questions page)
               \<longrightarrow> (\<exists>ctx. quiz_view clock rnd request w = (Render_quiz ctx, w)
                      \<and> (field_name_of (question_id q), [''Please select an answer for this question.''])
                          \<in> set (ctx_form_errors ctx)
                      \<and> ctx_questions ctx = ctx_questions page))"
proof -
  have main: "\<exists>ctx. quiz_view clock rnd request w = (Render_quiz ctx, w)
                 \<and> (field_name_of (question_id q), [''Please select an answer for this question.''])
                     \<in> set (ctx_form_errors ctx)
                 \<and> ctx_questions ctx
                     = select_questions rnd (current_settings (request_session w))
                         (QuizQuestion_objects w)"
    if sel: "q \<in> set (select_questions rnd (current_settings (request_session w)) (QuizQuestion_objects w))"
  proof -
    let ?qs = "select_questions rnd (current_settings (request_session w)) (QuizQuestion_objects w)"
    have err: "(field_name_of (question_id q), [''Please select an answer for this question.''])
             \<in> set (form_errors (QuizForm_init ?qs) (POST_data request))"
      using sel assms(3) by (rule missing_answer_error)
    then have "\<not> is_valid (QuizForm_init ?qs) (POST_data request)"
      by (auto simp: is_valid_def)
    moreover have "?qs \<noteq> []"
      using sel by auto
    moreover have "\<not> num_questions (current_settings (request_session w)) < 0"
      using sel select_questions_negative by fastforce
    ultimately show ?thesis
      using assms(1,2) err
      by (simp add: quiz_view_def Let_def)
  qed
  have second: "\<exists>ctx. quiz_view clock rnd request w = (Render_quiz ctx, w)
                      \<and> (field_name_of (question_id q), [''Please select an answer for this question.''])
                          \<in> set (ctx_form_errors ctx)
                      \<and> ctx_questions ctx = ctx_questions page"
    if "quiz_view clock0 rnd0 page_request w0 = (Render_quiz page, w)"
      and "\<not> random_order (current_settings (request_session w0))"
      and "q \<in> set (ctx_questions page)"
    for clock0 rnd0 page_request w0 page
  proof -
    have eq: "select_questions rnd (current_settings (request_session w)) (QuizQuestion_objects w)
             = ctx_questions page"
      using that(1,2) by (rule presented_selected_again)
    with that(3) main show ?thesis
      by simp
  qed
  from main second show ?thesis
    by blast
qed

theorem unanswered_submission_rejected_witness:
  "request_user ex_submit_partial = Some 7 \<and> request_method ex_submit_partial = POST
   \<and> POST_data ex_submit_partial (field_name_of (question_id ex_q3)) = None
   \<and> presented (fst (quiz_view ex_clock [] ex_get ex_world)) = [ex_q1, ex_q2, ex_q3]
   \<and> snd (quiz_view ex_clock [] ex_get ex_world) = ex_world_presented
   \<and> (\<exists>ctx. quiz_view ex_clock_later [] ex_submit_partial ex_world_presented
                 = (Render_quiz ctx, ex_world_presented)
          \<and> (''question_3'', [''Please select an answer for this question.''])
               \<in> set (ctx_form_errors ctx)
          \<and> ctx_questions ctx = [ex_q1, ex_q2, ex_q3])"
proof -
  let ?page = "\<lparr>ctx_form_fields = QuizForm_init [ex_q1, ex_q2, ex_q3], ctx_form_errors = [],
                ctx_questions = [ex_q1, ex_q2, ex_q3], ctx_question_count = 3,
                ctx_quiz_settings = ex_settings\<rparr>"
  have u: "request_user ex_submit_partial = Some 7" and m: "request_method ex_submit_partial = POST"
    by (simp_all add: ex_submit_partial_def)
  have n: "field_name_of (question_id ex_q3) = ''question_3''"
    by (simp add: ex_q3_def ex_field_names)
  have d: "POST_data ex_submit_partial (field_name_of (question_id ex_q3)) = None"
    by (simp add: n ex_submit_partial_def)
  have "fst (quiz_view ex_clock [] ex_get ex_world) = Render_quiz ?page"
    by code_simp
  then have page: "quiz_view ex_clock [] ex_get ex_world = (Render_quiz ?page, ex_world_presented)"
    by (simp add: prod_eq_iff ex_world_presented_def)
  have nr: "\<not> random_order (current_settings (request_session ex_world))"
    by code_simp
  have qin: "ex_q3 \<in> set (ctx_questions ?page)"
    by simp
  note t = unanswered_submission_rejected
    [OF u m disjI1 [OF d], where w = ex_world_presented and rnd = "[]" and clock = ex_clock_later,
     THEN conjunct2, rule_format, OF conjI [OF page conjI [OF nr qin]]]
  from t u m d n page show ?thesis
    by (simp add: presented_def)
qed

text \<open>
  The claim as stated fails: the quiz is presented with three questions, the third is
  deactivated, and the submission that leaves the third unanswered is accepted and adds a
  Score Record.
\<close>

theorem unanswered_presented_question_counterexample:
  "presented (fst (quiz_view ex_clock [] ex_get ex_world)) = [ex_q1, ex_q2, ex_q3]
   \<and> UserScore_objects ex_world_deactivated = []
   \<and> POST_data ex_submit_partial (field_name_of (question_id ex_q3)) = None
   \<and> fst (quiz_view ex_clock_later [] ex_submit_partial ex_world_deactivated)
       = Redirect ''quiz_results'' []
   \<and> length (UserScore_objects (snd (quiz_view ex_clock_later [] ex_submit_partial ex_world_deactivated))) = 1"
  by code_simp

text \<open>
  C2, as amended. For every scored submission, the question snapshot stored in the new
  Score Record is built at scoring time from the questions that the submission request
  itself selects from the Question Store, as the store is then; nothing is captured when
  the quiz is presented.
\<close>

theorem snapshot_taken_at_scoring:
  assumes "quiz_view clock rnd request w = (Redirect ''quiz_results'' msgs, w')"
  shows "\<exists>r. UserScore_objects w' = UserScore_objects w @ [r]
             \<and> quiz_questions r
                 = map snapshot (select_questions rnd (current_settings (request_session w))
                                   (QuizQuestion_objects w))"
  using quiz_view_scored [OF assms] by auto

theorem snapshot_taken_at_scoring_witness:
  "quiz_view ex_clock_later [] ex_submit ex_world_edited
     = (Redirect ''quiz_results'' [], snd (quiz_view ex_clock_later [] ex_submit ex_world_edited))
   \<and> (\<exists>r. UserScore_objects (snd (quiz_view ex_clock_later [] ex_submit ex_world_edited))
              = UserScore_objects ex_world_edited @ [r]
           \<and> quiz_questions r = map snapshot [ex_q1_edited, ex_q2, ex_q3])"
proof -
  have "fst (quiz_view ex_clock_later [] ex_submit ex_world_edited) = Redirect ''quiz_results'' []"
    by code_simp
  then have h: "quiz_view ex_clock_later [] ex_submit ex_world_edited
     = (Redirect ''quiz_results'' [], snd (quiz_view ex_clock_later [] ex_submit ex_world_edited))"
    by (simp add: prod_eq_iff)
  have sel: "select_questions [] (current_settings (request_session ex_world_edited))
               (QuizQuestion_objects ex_world_edited) = [ex_q1_edited, ex_q2, ex_q3]"
    by code_simp
  from snapshot_taken_at_scoring [OF h] h sel show ?thesis
    by simp
qed

text \<open>
  The claim as stated fails: the quiz is presented with the first question as it was, the
  question is edited, and the submission stores the edited question.
\<close>

theorem snapshot_presentation_counterexample:
  "presented (fst (quiz_view ex_clock [] ex_get ex_world)) = [ex_q1, ex_q2, ex_q3]
   \<and> map quiz_questions
         (UserScore_objects (snd (quiz_view ex_clock_later [] ex_submit ex_world_edited)))
       = [map snapshot [ex_q1_edited, ex_q2, ex_q3]]
   \<and> snapshot ex_q1_edited \<noteq> snapshot ex_q1"
  by code_simp

text \<open>
  C9, as amended. For every completed submission the elapsed time of the Score Record is
  never null. When the session holds a start timestamp, it is the submission's clock
  reading minus that timestamp. When it holds none, the submission first records its own
  clock reading as the start, and the elapsed time is the next clock reading minus that
  one.
\<close>

theorem elapsed_time_of_submission:
  assumes "quiz_view clock rnd request w = (Redirect ''quiz_results'' msgs, w')"
  shows "\<exists>r. UserScore_objects w' = UserScore_objects w @ [r]
             \<and> time_taken r \<noteq> None
             \<and> (\<forall>st. quiz_start_time (request_session w) = Some st
                     \<longrightarrow> time_taken r = Some (clock 0 - st))
             \<and> (quiz_start_time (request_session w) = None
                     \<longrightarrow> time_taken r = Some (clock 1 - clock 0))"
  using quiz_view_scored [OF assms] by (auto split: option.splits)

theorem elapsed_time_of_submission_witness:
  "quiz_view ex_clock_later [] ex_submit ex_world_edited
     = (Redirect ''quiz_results'' [], snd (quiz_view ex_clock_later [] ex_submit ex_world_edited))
   \<and> quiz_start_time (request_session ex_world_edited) = Some 1000
   \<and> (\<exists>r. UserScore_objects (snd (quiz_view ex_clock_later [] ex_submit ex_world_edited))
              = UserScore_objects ex_world_edited @ [r]
           \<and> time_taken r = Some 4000)"
proof -
  have "fst (quiz_view ex_clock_later [] ex_submit ex_world_edited) = Redirect ''quiz_results'' []"
    by code_simp
  then have h: "quiz_view ex_clock_later [] ex_submit ex_world_edited
     = (Redirect ''quiz_results'' [], snd (quiz_view ex_clock_later [] ex_submit ex_world_edited))"
    by (simp add: prod_eq_iff)
  have st: "quiz_start_time (request_session ex_world_edited) = Some 1000"
    by code_simp
  have c: "ex_clock_later 0 - 1000 = 4000"
    by (simp add: ex_clock_later_def)
  from elapsed_time_of_submission [OF h] h st c show ?thesis
    by auto
qed

text \<open>
  The claim as stated fails: no start timestamp was recorded before this submission, and
  the elapsed time of its record is one clock tick, not null.
\<close>

theorem elapsed_time_null_counterexample:
  "quiz_start_time (request_session ex_world) = None
   \<and> fst (quiz_view ex_clock [] ex_submit ex_world) = Redirect ''quiz_results'' []
   \<and> map time_taken (UserScore_objects (snd (quiz_view ex_clock [] ex_submit ex_world)))
       = [Some 1]"
  by code_simp

section \<open>The end-to-end scenario\<close>

text \<open>
  C3, as amended. With exactly three active questions and settings asking for three
  questions of any difficulty with random order off, the quiz page shows the three in
  stored order (the default ordering of the store, newest first); a submission that answers all three, two of them with the
  correct tag, is scored into a Score Record with score 2 and total 3, and the results
  page shows percentage 66.7, grade D and passed = True.
\<close>

theorem three_question_quiz:
  assumes "request_user page_request = Some u" and "request_method page_request = GET"
    and "request_user submission = Some u" and "request_method submission = POST"
    and "request_user results_request = Some u"
    and "quiz_settings (request_session w)
           = Some \<lparr>num_questions = 3, difficulty = ''ALL'', random_order = False\<rparr>"
    and "filter is_active (default_ordering (QuizQuestion_objects w)) = [q1, q2, q3]"
    and "distinct (map question_id [q1, q2, q3])"
    and "\<forall>q \<in> set [q1, q2, q3]. answered (POST_data submission) q"
    and "correct_count (POST_data submission) [q1, q2, q3] = 2"
    and "quiz_view clock1 rnd1 page_request w = (page, w1)"
    and "quiz_view clock2 rnd2 submission w1 = (answer, w2)"
  shows "presented page = [q1, q2, q3]
         \<and> answer = Redirect ''quiz_results'' []
         \<and> (\<exists>r. UserScore_objects w2 = UserScore_objects w @ [r]
                \<and> score r = 2 \<and> total_questions r = 3
                \<and> shown_results (fst (quiz_results_view results_request w2))
                    = Some \<lparr>ctx_user_score = r,
                            ctx_detailed_results = map (detailed_result r) (quiz_questions r),
                            ctx_percentage = 66.7, ctx_grade = ''D'', ctx_passed = True\<rparr>)"
proof -
  let ?qs = "[q1, q2, q3]"
  have sel: "select_questions rnd (current_settings (request_session w)) (QuizQuestion_objects w) = ?qs"
    for rnd
    using assms(6,7) by (simp add: select_questions_def current_settings_def Let_def)
  have w1: "w1 = w\<lparr>request_session := (request_session w)\<lparr>quiz_start_time := Some (clock1 0)\<rparr>\<rparr>"
    and page: "presented page = ?qs"
    using quiz_view_get [OF assms(1) _ sel, of clock1 rnd1] assms(2,11)
    by (simp_all add: presented_def)
  have sel1: "select_questions rnd2 (current_settings (request_session w1)) (QuizQuestion_objects w1) = ?qs"
    using sel [of rnd2] by (simp add: w1 current_settings_def)
  have ne: "?qs \<noteq> []" by simp
  note vs = valid_submission [OF assms(3,4) sel1 ne assms(8,9), of clock2]
  from vs(1) assms(12) have answer: "answer = Redirect ''quiz_results'' []"
    by simp
  from vs(2) assms(12,10) obtain r where r:
    "UserScore_objects w2 = UserScore_objects w1 @ [r]"
    "score_id r = next_pk (UserScore_objects w1)" "user r = u"
    "score r = 2" "total_questions r = 3" "percentage r = 200 / 3"
    by auto
  from vs(3) assms(12) have rid: "quiz_result_id (request_session w2) = Some (next_pk (UserScore_objects w1))"
    by simp
  have shown: "fst (quiz_results_view results_request w2)
           = Render_results
               \<lparr>ctx_user_score = r,
                ctx_detailed_results = map (detailed_result r) (quiz_questions r),
                ctx_percentage = round1 (percentage r),
                ctx_grade = get_grade r, ctx_passed = is_passed r\<rparr>"
    by (rule results_of_saved_row [OF assms(5) rid r(1,2,3)])
  have "round1 (percentage r) = 66.7"
    unfolding r(6) by (rule round1_two_thirds)
  moreover have "get_grade r = ''D''" "is_passed r"
    unfolding get_grade_def is_passed_def r(6) by simp_all
  ultimately have "shown_results (fst (quiz_results_view results_request w2))
                    = Some \<lparr>ctx_user_score = r,
                            ctx_detailed_results = map (detailed_result r) (quiz_questions r),
                            ctx_percentage = 66.7, ctx_grade = ''D'', ctx_passed = True\<rparr>"
    using shown by (simp add: shown_results_def)
  moreover have "UserScore_objects w2 = UserScore_objects w @ [r]"
    using r(1) by (simp add: w1)
  ultimately show ?thesis
    using page answer r(4,5) by blast
qed

theorem three_question_quiz_witness:
  "quiz_settings (request_session ex_world)
     = Some \<lparr>num_questions = 3, difficulty = ''ALL'', random_order = False\<rparr>
   \<and> filter is_active (default_ordering (QuizQuestion_objects ex_world)) = [ex_q1, ex_q2, ex_q3]
   \<and> correct_count (POST_data ex_submit) [ex_q1, ex_q2, ex_q3] = 2
   \<and> presented (fst (quiz_view ex_clock [] ex_get ex_world)) = [ex_q1, ex_q2, ex_q3]
   \<and> (\<exists>r. UserScore_objects ex_world_scored = UserScore_objects ex_world @ [r]
          \<and> score r = 2 \<and> total_questions r = 3
          \<and> map_option ctx_grade (shown_results (fst (quiz_results_view ex_get ex_world_scored)))
              = Some ''D'')"
proof -
  have u: "request_user ex_get = Some 7" and g: "request_method ex_get = GET"
    by (simp_all add: ex_get_def)
  have u': "request_user ex_submit = Some 7" and p: "request_method ex_submit = POST"
    by (simp_all add: ex_submit_def)
  have st: "quiz_settings (request_session ex_world)
              = Some \<lparr>num_questions = 3, difficulty = ''ALL'', random_order = False\<rparr>"
    by (simp add: ex_world_def ex_settings_def)
  have act: "filter is_active (default_ordering (QuizQuestion_objects ex_world)) = [ex_q1, ex_q2, ex_q3]"
    by code_simp
  have ids: "distinct (map question_id [ex_q1, ex_q2, ex_q3])"
    by code_simp
  have "answered (POST_data ex_submit) ex_q1" "answered (POST_data ex_submit) ex_q2"
    "answered (POST_data ex_submit) ex_q3"
    by code_simp+
  then have ans: "\<forall>q \<in> set [ex_q1, ex_q2, ex_q3]. answered (POST_data ex_submit) q"
    by simp
  have two: "correct_count (POST_data ex_submit) [ex_q1, ex_q2, ex_q3] = 2"
    by code_simp
  have v1: "quiz_view ex_clock [] ex_get ex_world
              = (fst (quiz_view ex_clock [] ex_get ex_world), ex_world_presented)"
    by (simp add: ex_world_presented_def)
  have v2: "quiz_view ex_clock_later [] ex_submit ex_world_presented
              = (fst (quiz_view ex_clock_later [] ex_submit ex_world_presented), ex_world_scored)"
    by (simp add: ex_world_scored_def)
  from three_question_quiz [OF u g u' p u st act ids ans two v1 v2] st act two
  show ?thesis
    by auto
qed

text \<open>
  The claim as stated fails in its last value: in the scenario the percentage 66.7 is at
  least 60, so the record counts as passed.
\<close>

theorem three_question_quiz_counterexample:
  "presented (fst (quiz_view ex_clock [] ex_get ex_world)) = [ex_q1, ex_q2, ex_q3]
   \<and> fst (quiz_view ex_clock_later [] ex_submit ex_world_presented) = Redirect ''quiz_results'' []
   \<and> map score (UserScore_objects ex_world_scored) = [2]
   \<and> map total_questions (UserScore_objects ex_world_scored) = [3]
   \<and> map_option ctx_percentage (shown_results (fst (quiz_results_view ex_get ex_world_scored))) = Some 66.7
   \<and> map_option ctx_grade (shown_results (fst (quiz_results_view ex_get ex_world_scored))) = Some ''D''
   \<and> map_option ctx_passed (shown_results (fst (quiz_results_view ex_get ex_world_scored))) = Some True"
  by code_simp

section \<open>The start timestamp\<close>




section \<open>Quiz settings\<close>

text \<open>
  C7, as amended. A settings submission with a requested count is accepted only if the
  count lies in 1..50 and does not exceed the number of active questions, and is accepted
  when moreover the difficulty is valid; the settings are then stored in the session. A
  count in 1..50 that exceeds the number of active questions is rejected with the error
  ``Only N questions are available. Please choose a smaller number.'', N being the actual
  number of active questions. A count above 50 or below 1 is rejected with the bound
  error of the field alone, which does not name the available count. A rejected
  submission renders the setup page again and changes nothing, so no quiz is started.
\<close>

theorem settings_count_validation:
  assumes "request_user request = Some u" and "request_method request = POST"
    and "num_questions_input (POST_data request) = Number n"
    and "available = length (filter is_active (QuizQuestion_objects w))"
  shows "(fst (quiz_setup_view request w) = Redirect ''quiz'' []
            \<longrightarrow> 1 \<le> n \<and> n \<le> 50 \<and> n \<le> int available)
         \<and> (1 \<le> n \<and> n \<le> 50 \<and> n \<le> int available
              \<and> ChoiceField_clean
                   \<lparr>label = ''Difficulty Level'', choices = DIFFICULTY_CHOICES,
                    required_message = ''This field is required.''\<rparr>
                   (difficulty_input (POST_data request)) = Inr d
            \<longrightarrow> quiz_setup_view request w
                 = (Redirect ''quiz'' [],
                    w\<lparr>request_session := (request_session w)
                         \<lparr>quiz_settings :=
                            Some \<lparr>num_questions = n, difficulty = d,
                                  random_order = random_order_input (POST_data request)\<rparr>\<rparr>\<rparr>))
         \<and> (1 \<le> n \<and> n \<le> 50 \<and> n > int available
            \<longrightarrow> (\<exists>errors. quiz_setup_view request w = (Render_setup errors available, w)
                   \<and> (''num_questions'',
                       [''Only '' @ str_nat available
                        @ '' questions are available. Please choose a smaller number.''])
                      \<in> set errors))
         \<and> (n > 50
            \<longrightarrow> (\<exists>errors. quiz_setup_view request w = (Render_setup errors available, w)
                   \<and> map snd (filter (\<lambda>e. fst e = ''num_questions'') errors)
                       = [[''Ensure this value is less than or equal to 50.'']]))
         \<and> (n < 1
            \<longrightarrow> (\<exists>errors. quiz_setup_view request w = (Render_setup errors available, w)
                   \<and> map snd (filter (\<lambda>e. fst e = ''num_questions'') errors)
                       = [[''Ensure this value is greater than or equal to 1.'']]))"
proof -
  have dclean: "ChoiceField_clean f raw = Inr d \<Longrightarrow> raw = Some d" for f raw d
    by (auto simp: ChoiceField_clean_def Let_def split: option.splits if_splits)
  show ?thesis
    using assms
    apply (intro conjI impI)
        apply (auto simp: quiz_setup_view_def settings_form_errors_def num_questions_field_clean_def
          clean_num_questions_def settings_cleaned_data_def Let_def
          split: sum.splits if_splits dest: dclean)
    done
qed

theorem settings_count_validation_witness:
  "num_questions_input (POST_data ex_setup_ten) = Number 10
   \<and> length (filter is_active (QuizQuestion_objects ex_world_five)) = 5
   \<and> (\<exists>errors. quiz_setup_view ex_setup_ten ex_world_five = (Render_setup errors 5, ex_world_five)
          \<and> (''num_questions'',
              [''Only 5 questions are available. Please choose a smaller number.''])
             \<in> set errors)"
proof -
  have u: "request_user ex_setup_ten = Some 7" and m: "request_method ex_setup_ten = POST"
    and n: "num_questions_input (POST_data ex_setup_ten) = Number 10"
    by (simp_all add: ex_setup_ten_def)
  have a: "5 = length (filter is_active (QuizQuestion_objects ex_world_five))"
    by code_simp
  have s: "str_nat 5 = ''5''"
    by code_simp
  from settings_count_validation [OF u m n a] n a [symmetric] s show ?thesis
    by simp
qed

text \<open>
  The claim as stated fails: with five active questions a request for fifty-one is
  rejected, but the only error is the upper bound of the field, which does not name the
  available count.
\<close>

theorem settings_bound_error_counterexample:
  "length (filter is_active (QuizQuestion_objects ex_world_five)) = 5
   \<and> fst (quiz_setup_view ex_setup_fifty_one ex_world_five)
       = Render_setup [(''num_questions'', [''Ensure this value is less than or equal to 50.''])] 5
   \<and> snd (quiz_setup_view ex_setup_fifty_one ex_world_five) = ex_world_five"
  by code_simp

section \<open>The quiz page without settings\<close>

text \<open>
  C10, as amended. When the session holds no quiz settings, the quiz page uses the
  defaults (10 questions, all difficulties, random order) and does not fail. The selection
  holds as many active questions as exist, up to 10, each at most once; the bound of the
  setup form is not checked. Provided at least one active question exists, the quiz is
  presented and the request is not redirected to the setup page; with no active question
  the request is redirected to setup with the no-questions error.
\<close>

theorem quiz_without_settings:
  assumes "request_user request = Some u" and "quiz_settings (request_session w) = None"
    and "selected = select_questions rnd default_settings (QuizQuestion_objects w)"
  shows "default_settings = \<lparr>num_questions = 10, difficulty = ''ALL'', random_order = True\<rparr>
         \<and> length selected = min 10 (length (filter is_active (QuizQuestion_objects w)))
         \<and> mset selected \<subseteq># mset (filter is_active (QuizQuestion_objects w))
         \<and> fst (quiz_view clock rnd request w) \<noteq> Server_error
         \<and> (filter is_active (QuizQuestion_objects w) \<noteq> [] \<and> request_method request \<noteq> POST
            \<longrightarrow> quiz_view clock rnd request w
                 = (Render_quiz \<lparr>ctx_form_fields = QuizForm_init selected, ctx_form_errors = [],
                                 ctx_questions = selected, ctx_question_count = length selected,
                                 ctx_quiz_settings = default_settings\<rparr>,
                    w\<lparr>request_session := (request_session w)\<lparr>quiz_start_time := Some (clock 0)\<rparr>\<rparr>))
         \<and> (filter is_active (QuizQuestion_objects w) \<noteq> []
            \<longrightarrow> (\<forall>msgs. fst (quiz_view clock rnd request w) \<noteq> Redirect ''quiz_setup'' msgs))
         \<and> (filter is_active (QuizQuestion_objects w) = []
            \<longrightarrow> quiz_view clock rnd request w
                 = (Redirect ''quiz_setup'' [''No questions available for the selected criteria.''], w))"
proof -
  have cur: "current_settings (request_session w) = default_settings"
    using assms(2) by (simp add: current_settings_def)
  have len: "length selected = min 10 (length (filter is_active (QuizQuestion_objects w)))"
    and sub: "mset selected \<subseteq># mset (filter is_active (QuizQuestion_objects w))"
    unfolding assms(3) by (rule select_default)+
  have nonneg: "0 \<le> num_questions (current_settings (request_session w))"
    by (simp add: cur default_settings_def)
  have noexc: "fst (quiz_view clock rnd request w) \<noteq> Server_error"
    using nonneg by (rule quiz_view_no_exception)
  have sel: "select_questions rnd (current_settings (request_session w)) (QuizQuestion_objects w) = selected"
    by (simp add: cur assms(3))
  have empty_iff: "selected = [] \<longleftrightarrow> filter is_active (QuizQuestion_objects w) = []"
    using len by (metis length_0_conv min_0R min_def zero_neq_numeral)
  have get: "filter is_active (QuizQuestion_objects w) \<noteq> [] \<and> request_method request \<noteq> POST
            \<longrightarrow> quiz_view clock rnd request w
                 = (Render_quiz \<lparr>ctx_form_fields = QuizForm_init selected, ctx_form_errors = [],
                                 ctx_questions = selected, ctx_question_count = length selected,
                                 ctx_quiz_settings = default_settings\<rparr>,
                    w\<lparr>request_session := (request_session w)\<lparr>quiz_start_time := Some (clock 0)\<rparr>\<rparr>)"
    using quiz_view_get [OF assms(1) _ sel, of clock] empty_iff cur by auto
  have noredir: "filter is_active (QuizQuestion_objects w) \<noteq> []
            \<longrightarrow> (\<forall>msgs. fst (quiz_view clock rnd request w) \<noteq> Redirect ''quiz_setup'' msgs)"
    using assms(1) sel empty_iff nonneg
    by (auto simp: quiz_view_def Let_def split: option.splits prod.splits)
  have redir: "filter is_active (QuizQuestion_objects w) = []
            \<longrightarrow> quiz_view clock rnd request w
                 = (Redirect ''quiz_setup'' [''No questions available for the selected criteria.''], w)"
    using assms(1) sel empty_iff nonneg
    by (auto simp: quiz_view_def Let_def)
  show ?thesis
    using len sub noexc get noredir redir by (simp add: default_settings_def)
qed

theorem quiz_without_settings_witness:
  "quiz_settings (request_session ex_world_no_settings) = None
   \<and> length (filter is_active (QuizQuestion_objects ex_world_no_settings)) = 3
   \<and> presented (fst (quiz_view ex_clock [5, 1, 7] ex_get ex_world_no_settings))
       = [ex_q3, ex_q2, ex_q1]
   \<and> length (presented (fst (quiz_view ex_clock [5, 1, 7] ex_get ex_world_no_settings)))
       = min 10 3"
proof -
  have u: "request_user ex_get = Some 7" and m: "request_method ex_get \<noteq> POST"
    by (simp_all add: ex_get_def)
  have s: "quiz_settings (request_session ex_world_no_settings) = None"
    by (simp add: ex_world_no_settings_def)
  have sel: "[ex_q3, ex_q2, ex_q1]
               = select_questions [5, 1, 7] default_settings (QuizQuestion_objects ex_world_no_settings)"
    by code_simp
  have act: "filter is_active (QuizQuestion_objects ex_world_no_settings) = [ex_q3, ex_q1, ex_q2]"
    by code_simp
  from quiz_without_settings [OF u s sel, of ex_clock] m s act show ?thesis
    by (simp add: presented_def)
qed

text \<open>
  The claim as stated fails: with no settings in the session and no active question in
  the store, the request is redirected to the setup page.
\<close>

theorem quiz_without_settings_counterexample:
  "quiz_settings (request_session ex_world_empty) = None
   \<and> quiz_view ex_clock [] ex_get ex_world_empty
       = (Redirect ''quiz_setup'' [''No questions available for the selected criteria.''],
          ex_world_empty)"
  by code_simp

section \<open>The results page and the question table\<close>

text \<open>
  C8. The results page does not depend on the question table: replacing the table by any
  other (questions edited, deactivated or deleted) leaves the response as it is. The
  record shown is a row of the score table, and the breakdown is computed from that
  record's own question snapshot and answers.
\<close>

theorem results_from_snapshot_only:
  "fst (quiz_results_view request (w\<lparr>QuizQuestion_objects := table\<rparr>))
     = fst (quiz_results_view request w)
   \<and> (\<forall>ctx. fst (quiz_results_view request w) = Render_results ctx
          \<longrightarrow> ctx_user_score ctx \<in> set (UserScore_objects w)
              \<and> ctx_detailed_results ctx
                  = map (detailed_result (ctx_user_score ctx)) (quiz_questions (ctx_user_score ctx)))"
  by (auto simp: quiz_results_view_def split: option.splits dest: find_Some_iff [THEN iffD1] intro: nth_mem)

theorem results_from_snapshot_only_witness:
  "shown_breakdown (fst (quiz_results_view ex_get (ex_world_scored\<lparr>QuizQuestion_objects := []\<rparr>)))
     = [(''What is two plus two?'', ''B'', ''B'', True),
        (''What is the capital of France?'', ''A'', ''A'', True),
        (''Which planet is the red one?'', ''D'', ''C'', False)]"
proof -
  have "shown_breakdown (fst (quiz_results_view ex_get ex_world_scored))
     = [(''What is two plus two?'', ''B'', ''B'', True),
        (''What is the capital of France?'', ''A'', ''A'', True),
        (''Which planet is the red one?'', ''D'', ''C'', False)]"
    by code_simp
  with results_from_snapshot_only [where request = ex_get and w = ex_world_scored and table = "[]"] show ?thesis
    by simp
qed

end
